theory Spec2Isabelle
  imports Complex_Main
begin

section \<open>Land Scraper content script: a shallow embedding of \<open>content.js\<close>\<close>

text \<open>
  The definitions follow the first (current) version of \<open>content.js\<close>, function by
  function and under the source's names.

  Conventions of the embedding.
  \<^item> A JavaScript number is an exact rational (\<^typ>\<open>rat\<close>): the infinities, negative
    zero, overflow and binary rounding error are not represented.  \<open>null\<close> is \<open>None\<close>,
    so a value that is ``a number or null'' is a \<^typ>\<open>rat option\<close>; where a function
    of the source turns \<open>NaN\<close> into \<open>null\<close> or only compares it, \<open>NaN\<close> is \<open>None\<close>
    as well.
  \<^item> A JavaScript string is a \<^typ>\<open>string\<close>; a \<^typ>\<open>char\<close> stands for one code unit
    below 256 (Latin-1 text).
  \<^item> A regular expression of the source is a function on the text that returns the
    captured groups of the leftmost match.
  \<^item> The document tree is not modelled: a card or a detail page is the record of the
    answers to the queries the code makes on it (the text of the element a selector
    finds, the \<open>href\<close> of a link).
  \<^item> An exception is a value: a function that can throw returns a sum, and every
    \<open>try\<close>/\<open>catch\<close> of the source is a case distinction on it.
  \<^item> The module-level variables, the extension storage, the messages sent to the popup
    and the navigation of the window are the fields of one record that every stateful
    function takes and returns.
\<close>

subsection \<open>Numbers\<close>

text \<open>\<open>Math.round\<close>: the nearest integer, a tie going up.\<close>

definition Math_round :: "rat \<Rightarrow> rat" where
  "Math_round x = of_int \<lfloor>x + 1 / 2\<rfloor>"

text \<open>The truth value JavaScript gives to a number or \<open>null\<close>: \<open>null\<close> and \<open>0\<close> are falsy.\<close>

fun truthy :: "rat option \<Rightarrow> bool" where
  "truthy None = False"
| "truthy (Some x) = (x \<noteq> 0)"

subsection \<open>Text\<close>

text \<open>
  The character classes of the regular expressions, on code units below 256, by the
  codes of the characters: \<open>\d\<close> (the digits, 48 to 57), \<open>\s\<close> (tab, line feed, vertical
  tab, form feed, carriage return, space and the no-break space), \<open>[A-Za-z]\<close> and \<open>\w\<close>.  \<open>lowerChar\<close> is \<open>toLowerCase\<close> on one character: the
  letters A to Z and the upper-case letters of Latin-1 move up by 32.  A pattern letter
  under the flag \<open>i\<close> is written in lower case and compared with \<open>lowerChar\<close> of
  the input character.
\<close>

definition isDigit :: "char \<Rightarrow> bool" where
  "isDigit c = (48 \<le> (of_char c :: nat) \<and> (of_char c :: nat) \<le> 57)"

definition isSpace :: "char \<Rightarrow> bool" where
  "isSpace c = (of_char c \<in> {9, 10, 11, 12, 13, 32, 160 :: nat})"

definition isLetter :: "char \<Rightarrow> bool" where
  "isLetter c =
     (let n = of_char c :: nat in (65 \<le> n \<and> n \<le> 90) \<or> (97 \<le> n \<and> n \<le> 122))"

definition isWordChar :: "char \<Rightarrow> bool" where
  "isWordChar c = (isLetter c \<or> isDigit c \<or> c = CHR ''_'')"

definition lowerChar :: "char \<Rightarrow> char" where
  "lowerChar c =
     (let n = of_char c :: nat
      in if (65 \<le> n \<and> n \<le> 90) \<or> (192 \<le> n \<and> n \<le> 222 \<and> n \<noteq> 215)
         then char_of (n + 32) else c)"

definition toLowerCase :: "string \<Rightarrow> string" where
  "toLowerCase s = map lowerChar s"

text \<open>\<open>String.prototype.trim\<close>, \<open>startsWith\<close> and \<open>includes\<close>.\<close>

definition trim :: "string \<Rightarrow> string" where
  "trim s = rev (dropWhile isSpace (rev (dropWhile isSpace s)))"

definition startsWith :: "string \<Rightarrow> string \<Rightarrow> bool" where
  "startsWith s p = (take (length p) s = p)"

fun js_includes :: "string \<Rightarrow> string \<Rightarrow> bool" where
  "js_includes [] p = (p = [])"
| "js_includes (c # cs) p = (startsWith (c # cs) p \<or> js_includes cs p)"

text \<open>
  The regular expressions are embedded as matchers: a matcher takes the text from a
  start position on and returns what it captured, or \<open>None\<close>.  \<open>lit\<close> and \<open>litCI\<close>
  match a literal (exactly, and under the flag \<open>i\<close>) and return the text after it.
\<close>

fun lit :: "string \<Rightarrow> string \<Rightarrow> string option" where
  "lit [] s = Some s"
| "lit (p # ps) [] = None"
| "lit (p # ps) (c # cs) = (if c = p then lit ps cs else None)"

fun litCI :: "string \<Rightarrow> string \<Rightarrow> string option" where
  "litCI [] s = Some s"
| "litCI (p # ps) [] = None"
| "litCI (p # ps) (c # cs) = (if lowerChar c = p then litCI ps cs else None)"

text \<open>An unanchored match: the leftmost start position at which the matcher succeeds.\<close>

fun search :: "(string \<Rightarrow> 'a option) \<Rightarrow> string \<Rightarrow> 'a option" where
  "search m [] = m []"
| "search m (c # cs) = (case m (c # cs) of Some r \<Rightarrow> Some r | None \<Rightarrow> search m cs)"

text \<open>
  \<open>number\<close> is the group \<open>(\d+\.?\d*)\<close>, matched greedily: it returns the captured text
  and the rest.  In every pattern of the source the group is followed by the end of
  the pattern or by something that cannot begin with a digit or a dot (a letter, a
  comma, white space), so giving back part of the greedy match can never make a failed
  match succeed, and the greedy match is the match.  \<open>numberThen follow\<close> is the group followed by the rest of the pattern.
\<close>

definition number :: "string \<Rightarrow> (string \<times> string) option" where
  "number s =
     (let ds = takeWhile isDigit s; r1 = dropWhile isDigit s
      in if ds = [] then None
         else case r1 of
                [] \<Rightarrow> Some (ds, r1)
              | c # r2 \<Rightarrow>
                  if c = CHR ''.''
                  then Some (ds @ c # takeWhile isDigit r2, dropWhile isDigit r2)
                  else Some (ds, r1))"

definition numberThen :: "(string \<Rightarrow> bool) \<Rightarrow> string \<Rightarrow> string option" where
  "numberThen follow s =
     (case number s of
        None \<Rightarrow> None
      | Some (n, r) \<Rightarrow> if follow r then Some n else None)"

text \<open>
  \<open>parseFloat\<close>: leading white space, a sign, digits with an optional fraction,
  an optional exponent; \<open>None\<close> is \<open>NaN\<close>.  The literal \<open>Infinity\<close> is not represented.
\<close>

definition digitsValue :: "string \<Rightarrow> nat" where
  "digitsValue s = foldl (\<lambda>a c. 10 * a + (of_char c - 48)) 0 s"

definition exponentPart :: "string \<Rightarrow> int" where
  "exponentPart s =
     (case s of
        [] \<Rightarrow> 0
      | c # r \<Rightarrow>
          if lowerChar c = CHR ''e''
          then (let neg = (case r of [] \<Rightarrow> False | d # _ \<Rightarrow> d = CHR ''-'');
                    ds = takeWhile isDigit
                           (case r of [] \<Rightarrow> r
                            | d # r' \<Rightarrow> if d = CHR ''-'' \<or> d = CHR ''+'' then r' else r)
                in if ds = [] then 0
                   else if neg then - int (digitsValue ds) else int (digitsValue ds))
          else 0)"

definition parseFloat :: "string \<Rightarrow> rat option" where
  "parseFloat s =
     (let t = dropWhile isSpace s;
          neg = (case t of [] \<Rightarrow> False | c # _ \<Rightarrow> c = CHR ''-'');
          u = (case t of [] \<Rightarrow> t
               | c # r \<Rightarrow> if c = CHR ''-'' \<or> c = CHR ''+'' then r else t);
          ip = takeWhile isDigit u;
          r1 = dropWhile isDigit u;
          fp = (case r1 of [] \<Rightarrow> []
                | c # r \<Rightarrow> if c = CHR ''.'' then takeWhile isDigit r else []);
          r2 = (case r1 of [] \<Rightarrow> r1
                | c # r \<Rightarrow> if c = CHR ''.'' then dropWhile isDigit r else r1);
          e = exponentPart r2;
          m = of_nat (digitsValue (ip @ fp)) / 10 ^ length fp
      in if ip = [] \<and> fp = [] then None
         else Some ((if neg then - 1 else 1)
                    * (if 0 \<le> e then m * 10 ^ nat e else m / 10 ^ nat (- e))))"

text \<open>
  \<open>text.replace(pattern, '')\<close> with the flag \<open>g\<close>: \<open>len\<close> gives the length of the match
  that starts at a position (0 for none); the matches are removed from left to right,
  the search going on behind each match.
\<close>

fun deleteMatches :: "(string \<Rightarrow> nat) \<Rightarrow> nat \<Rightarrow> string \<Rightarrow> string" where
  "deleteMatches len k [] = []"
| "deleteMatches len (Suc k) (c # cs) = deleteMatches len k cs"
| "deleteMatches len 0 (c # cs) =
     (case len (c # cs) of
        0 \<Rightarrow> c # deleteMatches len 0 cs
      | Suc k \<Rightarrow> deleteMatches len k cs)"

subsection \<open>Region resolver\<close>

text \<open>
  \<open>text.split(/[,\-\/\|>\<rightarrow>]/)\<close>: the text between the separators, empty pieces
  included.  The arrow of the source's character class is not a code unit below 256
  and does not occur in the texts of this embedding.
\<close>

definition isSeparator :: "char \<Rightarrow> bool" where
  "isSeparator c = (c \<in> set '',-/|>'')"

fun split :: "(char \<Rightarrow> bool) \<Rightarrow> string \<Rightarrow> string list" where
  "split sep [] = [[]]"
| "split sep (c # cs) =
     (if sep c then [] # split sep cs
      else case split sep cs of
             [] \<Rightarrow> [[c]]
           | p # ps \<Rightarrow> (c # p) # ps)"

text \<open>
  The mapping \<open>GND_MC_MAPPING\<close> of \<open>gnd_mapping.js\<close> is a parameter: the list of its
  entries in the order of \<open>Object.entries\<close>, or \<open>None\<close> when the script is not loaded
  (\<open>typeof GND_MC_MAPPING === 'undefined'\<close>).  The mapping is a plain object, so
  \<open>GND_MC_MAPPING[part]\<close> finds an entry of its own (\<open>map_of\<close>) or else a property that
  every object inherits from \<open>Object.prototype\<close>, whose value is a function or an object
  and truthy.  A value of the resolver is therefore a string or such an inherited
  value, named by its property.

  The three loops over the mapping, in the order of the source: a part for which
  \<open>GND_MC_MAPPING[part]\<close> is truthy (a key with a non-empty value, or the name of an
  inherited property); a part that contains a key or is contained in one; a key
  contained in the whole text.  \<open>Object.entries\<close> lists the entries of its own only.
\<close>

datatype jsvalue = Str string | Inherited string

definition inheritedNames :: "string list" where
  "inheritedNames =
     [''constructor'', ''__defineGetter__'', ''__defineSetter__'', ''hasOwnProperty'',
      ''__lookupGetter__'', ''__lookupSetter__'', ''isPrototypeOf'',
      ''propertyIsEnumerable'', ''toString'', ''valueOf'', ''__proto__'',
      ''toLocaleString'']"

fun exactMatch :: "(string \<times> string) list \<Rightarrow> string list \<Rightarrow> jsvalue option" where
  "exactMatch m [] = None"
| "exactMatch m (part # parts) =
     (case map_of m part of
        None \<Rightarrow>
          if part \<in> set inheritedNames then Some (Inherited part) else exactMatch m parts
      | Some mc \<Rightarrow> if mc \<noteq> [] then Some (Str mc) else exactMatch m parts)"

fun partMatch :: "(string \<times> string) list \<Rightarrow> string list \<Rightarrow> string option" where
  "partMatch m [] = None"
| "partMatch m (part # parts) =
     (case find (\<lambda>(gnd, mc). js_includes part gnd \<or> js_includes gnd part) m of
        None \<Rightarrow> partMatch m parts
      | Some (gnd, mc) \<Rightarrow> Some mc)"

definition fullTextMatch :: "(string \<times> string) list \<Rightarrow> string \<Rightarrow> string option" where
  "fullTextMatch m lowerText =
     map_option snd (find (\<lambda>(gnd, mc). js_includes lowerText gnd) m)"

definition kaduwelaAreas :: "string list" where
  "kaduwelaAreas = [''battaramulla'', ''pelawatta'', ''thalawathugoda'', ''malabe'',
     ''athurugiriya'', ''kaduwela'', ''ranala'', ''hewagama'', ''hokandara'']"

definition kotteAreas :: "string list" where
  "kotteAreas = [''rajagiriya'', ''ethul kotte'', ''etul kotte'', ''pita kotte'',
     ''nawala'', ''nugegoda'', ''pagoda'', ''gangodawila'', ''welikada'']"

definition colomboAreas :: "string list" where
  "colomboAreas = [''mattakkuliya'', ''modara'', ''borella'', ''cinnamon gardens'',
     ''havelock town'', ''wellawatta'', ''wellawatte'', ''pamankada'', ''kirulapona'',
     ''colombo'']"

text \<open>\<open>getMunicipalCouncil(locationText)\<close>; \<open>None\<close> is a text that is \<open>null\<close> or
  \<open>undefined\<close>.\<close>

definition getMunicipalCouncil ::
  "(string \<times> string) list option \<Rightarrow> string option \<Rightarrow> jsvalue" where
  "getMunicipalCouncil GND_MC_MAPPING locationText =
     (case locationText of
        None \<Rightarrow> Str ''Unknown''
      | Some text \<Rightarrow>
          if text = [] then Str ''Unknown''
          else
            let lowerText = trim (toLowerCase text);
                parts = filter (\<lambda>p. length p > 0) (map trim (split isSeparator lowerText));
                mapped =
                  (case GND_MC_MAPPING of
                     None \<Rightarrow> None
                   | Some m \<Rightarrow>
                       (case exactMatch m parts of
                          Some v \<Rightarrow> Some v
                        | None \<Rightarrow>
                            (case partMatch m parts of
                               Some mc \<Rightarrow> Some (Str mc)
                             | None \<Rightarrow> map_option Str (fullTextMatch m lowerText))))
            in case mapped of
                 Some v \<Rightarrow> v
               | None \<Rightarrow>
                   if list_ex (\<lambda>loc. js_includes lowerText loc) kaduwelaAreas
                   then Str ''Kaduwela MC''
                   else if list_ex (\<lambda>loc. js_includes lowerText loc) kotteAreas
                   then Str ''Sri Jayawardenepura Kotte MC''
                   else if list_ex (\<lambda>loc. js_includes lowerText loc) colomboAreas
                   then Str ''Colombo MC''
                   else Str ''Other'')"

subsection \<open>Field parsers\<close>

text \<open>The pattern \<open>/Rs\.?|LKR|,|\s/gi\<close> of \<open>parsePrice\<close>.\<close>

definition currencyToken :: "string \<Rightarrow> nat" where
  "currencyToken s =
     (case litCI ''rs'' s of
        Some r \<Rightarrow> (case r of [] \<Rightarrow> 2 | c # _ \<Rightarrow> if c = CHR ''.'' then 3 else 2)
      | None \<Rightarrow>
          (case litCI ''lkr'' s of
             Some _ \<Rightarrow> 3
           | None \<Rightarrow>
               (case s of [] \<Rightarrow> 0
                | c # _ \<Rightarrow> if c = CHR '','' \<or> isSpace c then 1 else 0)))"

text \<open>
  \<open>parsePrice(priceText)\<close>.  The three suffix patterns are \<open>/(\d+\.?\d*)M/i\<close>,
  \<open>/(\d+\.?\d*)\s*lakhs?/i\<close> and \<open>/(\d+\.?\d*)\s*crore/i\<close>.  The test for millions runs
  on \<open>cleaned\<close>, the tests for lakhs and crores on \<open>priceText\<close> itself, as in the source.
\<close>

definition millionSuffix :: "string \<Rightarrow> bool" where
  "millionSuffix r = (litCI ''m'' r \<noteq> None)"

definition lakhSuffix :: "string \<Rightarrow> bool" where
  "lakhSuffix r = (litCI ''lakh'' (dropWhile isSpace r) \<noteq> None)"

definition croreSuffix :: "string \<Rightarrow> bool" where
  "croreSuffix r = (litCI ''crore'' (dropWhile isSpace r) \<noteq> None)"

definition parsePrice :: "string \<Rightarrow> rat option" where
  "parsePrice priceText =
     (if priceText = [] then None
      else
        let cleaned = trim (deleteMatches currencyToken 0 priceText)
        in case search (numberThen millionSuffix) cleaned of
             Some n \<Rightarrow> map_option (\<lambda>x. Math_round (x * 1000000)) (parseFloat n)
           | None \<Rightarrow>
               (case search (numberThen lakhSuffix) priceText of
                  Some n \<Rightarrow> map_option (\<lambda>x. Math_round (x * 100000)) (parseFloat n)
                | None \<Rightarrow>
                    (case search (numberThen croreSuffix) priceText of
                       Some n \<Rightarrow> map_option (\<lambda>x. Math_round (x * 10000000)) (parseFloat n)
                     | None \<Rightarrow> map_option Math_round (parseFloat cleaned))))"

text \<open>A letter followed by a word boundary, as in \<open>p\b\<close>.\<close>

definition wordEnd :: "char \<Rightarrow> string \<Rightarrow> bool" where
  "wordEnd p s =
     (case s of
        [] \<Rightarrow> False
      | c # r \<Rightarrow> lowerChar c = p \<and> (case r of [] \<Rightarrow> True | d # _ \<Rightarrow> \<not> isWordChar d))"

text \<open>
  \<open>parseSize(sizeText)\<close>, in perches.  The unit patterns, behind the number:
  \<open>\s*(?:perch|perches|p\b)\<close>, \<open>\s*(?:acre|acres|ac)\<close> and \<open>\s*(?:rood|roods|r\b)\<close>.
\<close>

definition perchUnit :: "string \<Rightarrow> bool" where
  "perchUnit r =
     (let u = dropWhile isSpace r
      in litCI ''perch'' u \<noteq> None \<or> litCI ''perches'' u \<noteq> None \<or> wordEnd CHR ''p'' u)"

definition acreUnit :: "string \<Rightarrow> bool" where
  "acreUnit r =
     (let u = dropWhile isSpace r
      in litCI ''acre'' u \<noteq> None \<or> litCI ''acres'' u \<noteq> None \<or> litCI ''ac'' u \<noteq> None)"

definition roodUnit :: "string \<Rightarrow> bool" where
  "roodUnit r =
     (let u = dropWhile isSpace r
      in litCI ''rood'' u \<noteq> None \<or> litCI ''roods'' u \<noteq> None \<or> wordEnd CHR ''r'' u)"

definition parseSize :: "string \<Rightarrow> rat option" where
  "parseSize sizeText =
     (if sizeText = [] then None
      else
        let lowerText = toLowerCase sizeText
        in case search (numberThen perchUnit) lowerText of
             Some n \<Rightarrow> parseFloat n
           | None \<Rightarrow>
               (case search (numberThen acreUnit) lowerText of
                  Some n \<Rightarrow> map_option (\<lambda>x. x * 160) (parseFloat n)
                | None \<Rightarrow>
                    (case search (numberThen roodUnit) lowerText of
                       Some n \<Rightarrow> map_option (\<lambda>x. x * 40) (parseFloat n)
                     | None \<Rightarrow> None)))"

text \<open>
  \<open>calculatePricePerPerch(price, size, isPricePerPerch)\<close>.  The first test of the
  source is \<open>!price || !size || size <= 0\<close>.
\<close>

definition calculatePricePerPerch :: "rat option \<Rightarrow> rat option \<Rightarrow> bool \<Rightarrow> rat option" where
  "calculatePricePerPerch price sz isPricePerPerch =
     (if \<not> truthy price \<or> \<not> truthy sz \<or> the sz \<le> 0 then None
      else if isPricePerPerch then price
      else if the price > 5000000 \<and> the sz < 50 then Some (Math_round (the price / the sz))
      else if the price < 500000 then price
      else if the price > 1000000 then Some (Math_round (the price / the sz))
      else price)"

text \<open>
  The group \<open>(-?\d+\.?\d*)\<close>, and a pattern of \<open>extractCoordsFromGoogleMaps\<close>: a literal,
  the group, a comma, the group (the patterns have no flag, the literal is matched
  exactly).
\<close>

definition signedNumber :: "string \<Rightarrow> (string \<times> string) option" where
  "signedNumber s =
     (case s of
        [] \<Rightarrow> None
      | c # r \<Rightarrow>
          if c = CHR ''-'' then map_option (\<lambda>(n, t). (c # n, t)) (number r)
          else number s)"

definition coordPair :: "string \<Rightarrow> string \<Rightarrow> (string \<times> string) option" where
  "coordPair pre s =
     (case lit pre s of
        None \<Rightarrow> None
      | Some r \<Rightarrow>
          (case signedNumber r of
             None \<Rightarrow> None
           | Some (a, r1) \<Rightarrow>
               (case r1 of
                  [] \<Rightarrow> None
                | c # r2 \<Rightarrow>
                    if c = CHR '',''
                    then (case signedNumber r2 of
                            None \<Rightarrow> None
                          | Some (b, r3) \<Rightarrow> Some (a, b))
                    else None)))"

record coords =
  lat :: "rat option"
  lng :: "rat option"

definition noCoords :: coords where
  "noCoords = \<lparr>lat = None, lng = None\<rparr>"

text \<open>\<open>extractCoordsFromGoogleMaps(url)\<close>: the first of the three patterns that matches.\<close>

definition extractCoordsFromGoogleMaps :: "string option \<Rightarrow> coords" where
  "extractCoordsFromGoogleMaps url =
     (case url of
        None \<Rightarrow> noCoords
      | Some u \<Rightarrow>
          if u = [] then noCoords
          else
            (case search (coordPair ''place/'') u of
               Some (a, b) \<Rightarrow> \<lparr>lat = parseFloat a, lng = parseFloat b\<rparr>
             | None \<Rightarrow>
                 (case search (coordPair ''@'') u of
                    Some (a, b) \<Rightarrow> \<lparr>lat = parseFloat a, lng = parseFloat b\<rparr>
                  | None \<Rightarrow>
                      (case search (coordPair ''q='') u of
                         Some (a, b) \<Rightarrow> \<lparr>lat = parseFloat a, lng = parseFloat b\<rparr>
                       | None \<Rightarrow> noCoords))))"

text \<open>The test \<open>lat >= 5.9 && lat <= 9.9 && lng >= 79.5 && lng <= 81.9\<close>; a comparison
  with \<open>NaN\<close> is false.\<close>

definition inSriLanka :: "rat option \<Rightarrow> rat option \<Rightarrow> bool" where
  "inSriLanka lt lg =
     (case lt of
        None \<Rightarrow> False
      | Some x \<Rightarrow>
          (case lg of
             None \<Rightarrow> False
           | Some y \<Rightarrow> 59 / 10 \<le> x \<and> x \<le> 99 / 10 \<and> 795 / 10 \<le> y \<and> y \<le> 819 / 10))"

subsection \<open>Detail enricher\<close>

text \<open>
  The detail document, as the answers to the queries \<open>fetchDetailPageInfo\<close> makes.
  \<^item> \<open>doc_postedDate\<close> and \<open>doc_address\<close> are the outcomes of the two sections that run
    for ikman.lk only (posted date, address); they rest on the browser's \<open>Date\<close> and on
    the document tree and are taken as given.  The posted-date section can throw
    (\<open>toISOString\<close> of an invalid date): \<open>Inl\<close>.
  \<^item> \<open>doc_mapLink\<close> and \<open>doc_mapIframe\<close> are the \<open>href\<close> and the \<open>src\<close> of the first map
    link and the first map frame, if any.
  \<^item> \<open>doc_scripts\<close> holds, for every \<open>script\<close> element, the results of matching its text
    against the four coordinate patterns, in their order: the two captured groups, or
    \<open>None\<close> where the pattern does not match.
  \<^item> \<open>doc_mapContainer\<close> is the \<open>dataset\<close> of the first element with coordinate data
    attributes.
\<close>

datatype exn = NetworkFailure | BodyUnreadable | InvalidDate | InvalidURL | StorageFailure

record dataset =
  data_lat :: "string option"
  data_latitude :: "string option"
  data_lng :: "string option"
  data_longitude :: "string option"

record detail_doc =
  doc_postedDate :: "exn + string option"
  doc_address :: "string option"
  doc_mapLink :: "string option"
  doc_mapIframe :: "string option"
  doc_scripts :: "(string \<times> string) option list list"
  doc_mapContainer :: "dataset option"

text \<open>
  What \<open>fetch\<close> does for a url: it rejects, or it resolves to a response with a status
  (\<open>response.ok\<close> is a status from 200 to 299) whose body is unreadable (\<open>None\<close>:
  \<open>response.text()\<close> rejects) or parses to a document.
\<close>

datatype fetched = Rejected | Response nat "detail_doc option"

record detail_info = coords +
  info_postedDate :: "string option"
  info_address :: "string option"

definition noInfo :: detail_info where
  "noInfo = \<lparr>lat = None, lng = None, info_postedDate = None, info_address = None\<rparr>"

text \<open>The step ``take the coordinates of a map url if both are truthy''.\<close>

definition fromMapUrl :: "string option \<Rightarrow> detail_info \<Rightarrow> detail_info" where
  "fromMapUrl u result =
     (let c = extractCoordsFromGoogleMaps u
      in if truthy (lat c) \<and> truthy (lng c) then result\<lparr>lat := lat c, lng := lng c\<rparr>
         else result)"

text \<open>The loop over the patterns for one script, and the loop over the scripts: the
  first match that lies in the bounding box is taken.\<close>

fun scanPatterns :: "(string \<times> string) option list \<Rightarrow> coords option" where
  "scanPatterns [] = None"
| "scanPatterns (m # ms) =
     (case m of
        None \<Rightarrow> scanPatterns ms
      | Some (a, b) \<Rightarrow>
          if inSriLanka (parseFloat a) (parseFloat b)
          then Some \<lparr>lat = parseFloat a, lng = parseFloat b\<rparr>
          else scanPatterns ms)"

fun scanScripts :: "(string \<times> string) option list list \<Rightarrow> coords option" where
  "scanScripts [] = None"
| "scanScripts (script # scripts) =
     (case scanPatterns script of
        Some c \<Rightarrow> Some c
      | None \<Rightarrow> scanScripts scripts)"

text \<open>\<open>a || b\<close> on two attribute values: the first if it is a non-empty string.\<close>

definition orElse :: "string option \<Rightarrow> string option \<Rightarrow> string option" where
  "orElse a b = (case a of None \<Rightarrow> b | Some x \<Rightarrow> if x = [] then b else a)"

definition fromDataset :: "dataset \<Rightarrow> detail_info \<Rightarrow> detail_info" where
  "fromDataset d result =
     (let lt = (case orElse (data_lat d) (data_latitude d) of
                  None \<Rightarrow> None | Some t \<Rightarrow> parseFloat t);
          lg = (case orElse (data_lng d) (data_longitude d) of
                  None \<Rightarrow> None | Some t \<Rightarrow> parseFloat t)
      in if truthy lt \<and> truthy lg \<and> inSriLanka lt lg then result\<lparr>lat := lt, lng := lg\<rparr>
         else result)"

text \<open>
  The body of the \<open>try\<close> of \<open>fetchDetailPageInfo(url, site)\<close>; an exception is \<open>Inl\<close>.
\<close>

definition fetchDetailPageInfo_body ::
  "(string \<Rightarrow> fetched) \<Rightarrow> string \<Rightarrow> string \<Rightarrow> exn + detail_info" where
  "fetchDetailPageInfo_body fetch u site =
     (case fetch u of
        Rejected \<Rightarrow> Inl NetworkFailure
      | Response status body \<Rightarrow>
          if \<not> (200 \<le> status \<and> status \<le> 299) then Inr noInfo
          else
            (case body of
               None \<Rightarrow> Inl BodyUnreadable
             | Some doc \<Rightarrow>
                 (case (if site = ''ikman'' then doc_postedDate doc else Inr None) of
                    Inl e \<Rightarrow> Inl e
                  | Inr posted \<Rightarrow>
                      let r0 = noInfo\<lparr>info_postedDate := posted,
                                 info_address := (if site = ''ikman'' then doc_address doc else None)\<rparr>;
                          r1 = (case doc_mapLink doc of
                                  None \<Rightarrow> r0
                                | Some href \<Rightarrow> fromMapUrl (Some href) r0);
                          r2 = (if \<not> truthy (lat r1)
                                then (case doc_mapIframe doc of
                                        None \<Rightarrow> r1
                                      | Some src \<Rightarrow> fromMapUrl (Some src) r1)
                                else r1);
                          r3 = (if \<not> truthy (lat r2)
                                then (case scanScripts (doc_scripts doc) of
                                        None \<Rightarrow> r2
                                      | Some c \<Rightarrow> r2\<lparr>lat := lat c, lng := lng c\<rparr>)
                                else r2);
                          r4 = (if \<not> truthy (lat r3)
                                then (case doc_mapContainer doc of
                                        None \<Rightarrow> r3
                                      | Some d \<Rightarrow> fromDataset d r3)
                                else r3)
                      in Inr r4)))"

text \<open>
  \<open>fetchDetailPageInfo\<close> with its \<open>catch\<close>, which returns the four fields absent.  The
  result is again a sum, so that ``the call does not throw'' is a statement about it.
\<close>

definition fetchDetailPageInfo ::
  "(string \<Rightarrow> fetched) \<Rightarrow> string \<Rightarrow> string \<Rightarrow> exn + detail_info" where
  "fetchDetailPageInfo fetch u site =
     (case fetchDetailPageInfo_body fetch u site of
        Inl e \<Rightarrow> Inr noInfo
      | Inr r \<Rightarrow> Inr r)"

subsection \<open>Records, storage and messages\<close>

text \<open>The object that \<open>extractFromCard\<close> returns.\<close>

record listing =
  title :: string
  address :: string
  priceRaw :: string
  priceTotal :: "rat option"
  pricePerPerch :: "rat option"
  sizePerches :: "rat option"
  url :: string
  latitude :: "rat option"
  longitude :: "rat option"
  postedDate :: "string option"
  source :: string
  municipalCouncil :: jsvalue
  scrapedAt :: string

text \<open>The keys of \<open>chrome.storage.local\<close> that the content script reads and writes;
  \<open>None\<close> is a key that was never set.\<close>

record storage =
  st_listings :: "listing list option"
  st_pagesScraped :: "nat option"
  st_isScraping :: "bool option"
  st_filterLocations :: "bool option"
  st_scrapeDetails :: "bool option"
  st_pageDelay :: "rat option"
  st_visitedPages :: "string list option"

text \<open>
  The messages of \<open>chrome.runtime.sendMessage\<close>, by their \<open>action\<close>.  The text of a
  \<open>LOG\<close> message is kept as the template it is built from, with the values that are
  spliced in.
\<close>

datatype log_text =
    UnknownWebsite
  | FoundCards nat
  | FetchingDetails string
  | FoundCoordinates "rat option" "rat option"
  | PostedDate string
  | MunicipalCouncilIs jsvalue
  | ExtractedListings nat
  | FilteredByLocation nat
  | NavigatingToNextPage
  | NotSupportedWebsite
  | StoppedByUser
  | NoMorePages
  | ErrorText exn
  | ScraperStopped

datatype severity = Info | Success | Error

datatype message =
    LOG log_text severity
  | UPDATE_COUNT nat nat
  | UPDATE_PAGES nat
  | SCRAPING_COMPLETE nat
  | SCRAPING_ERROR exn

definition DEFAULT_LOCATIONS :: "string list" where
  "DEFAULT_LOCATIONS =
     [''battaramulla'', ''pelawatta'', ''thalawathugoda'', ''malabe'',
      ''athurugiriya'', ''kaduwela'', ''ranala'', ''hewagama'', ''hokandara'',
      ''rajagiriya'', ''ethul kotte'', ''etul kotte'', ''pita kotte'',
      ''nawala'', ''nugegoda'', ''pagoda'', ''gangodawila'', ''welikada'',
      ''mattakkuliya'', ''modara'', ''borella'', ''cinnamon gardens'',
      ''havelock town'', ''wellawatta'', ''wellawatte'', ''pamankada'', ''kirulapona'',
      ''colombo 01'', ''colombo 02'', ''colombo 03'', ''colombo 04'', ''colombo 05'',
      ''colombo 06'', ''colombo 07'', ''colombo 08'', ''colombo 09'', ''colombo 10'',
      ''colombo 1'', ''colombo 2'', ''colombo 3'', ''colombo 4'', ''colombo 5'',
      ''colombo 6'', ''colombo 7'', ''colombo 8'', ''colombo 9'']"

text \<open>
  The state of one page context: the module-level variables of the script, and
  \<^item> \<open>visitedPages\<close>, the \<open>Set\<close> of the source, kept in insertion order;
  \<^item> \<open>store\<close>, the extension storage, and \<open>storage_ok\<close>, whether the storage backend
    answers (a rejected \<open>get\<close> or \<open>set\<close> throws);
  \<^item> \<open>sent\<close>, the messages in the order they are sent;
  \<^item> \<open>navigated\<close>, the last value assigned to \<open>window.location.href\<close>.
\<close>

record world =
  customLocations :: "string list"
  isRunning :: bool
  filterLocations :: bool
  scrapeDetails :: bool
  pageDelay :: rat
  visitedPages :: "string list"
  store :: storage
  storage_ok :: bool
  sent :: "message list"
  navigated :: "string option"

text \<open>The storage before any key is set, and the module-level variables as the
  script initialises them (\<open>DEFAULT_PAGE_DELAY\<close> is 2500).\<close>

definition empty_storage :: storage where
  "empty_storage = \<lparr>st_listings = None, st_pagesScraped = None, st_isScraping = None,
     st_filterLocations = None, st_scrapeDetails = None, st_pageDelay = None,
     st_visitedPages = None\<rparr>"

definition initial_world :: world where
  "initial_world = \<lparr>customLocations = DEFAULT_LOCATIONS, isRunning = False,
     filterLocations = True, scrapeDetails = False,
     pageDelay = 2500, visitedPages = [], store = empty_storage, storage_ok = True,
     sent = [], navigated = None\<rparr>"

definition sendMessage :: "message \<Rightarrow> world \<Rightarrow> world" where
  "sendMessage m w = w\<lparr>sent := sent w @ [m]\<rparr>"

subsection \<open>Site adapters\<close>

text \<open>\<open>x || ''\<close> for a text that may be missing, and the product of two values that are
  numbers or \<open>null\<close> (in a product \<open>null\<close> counts as 0).\<close>

definition orEmpty :: "string option \<Rightarrow> string" where
  "orEmpty x = (case x of None \<Rightarrow> [] | Some t \<Rightarrow> t)"

definition toNumber :: "rat option \<Rightarrow> rat" where
  "toNumber x = (case x of None \<Rightarrow> 0 | Some v \<Rightarrow> v)"

definition times :: "rat option \<Rightarrow> rat option \<Rightarrow> rat option" where
  "times a b = Some (toNumber a * toNumber b)"

text \<open>\<open>/per\s*perch/i.test(priceText)\<close>.\<close>

definition perPerchMarked :: "string \<Rightarrow> bool" where
  "perPerchMarked priceText =
     (search (\<lambda>s. case litCI ''per'' s of
                     None \<Rightarrow> None
                   | Some r \<Rightarrow> litCI ''perch'' (dropWhile isSpace r)) priceText \<noteq> None)"

text \<open>
  A listing card of ikman.lk, as the answers to the queries of \<open>extractFromCard\<close>:
  the value of \<open>link.href || link.getAttribute('href')\<close>, the text of the title
  element, the text of the element each location selector finds (in the order of
  the selectors), the text of the price element, and the text of the whole card.
\<close>

record ikman_card =
  ik_href :: "string option"
  ik_title :: "string option"
  ik_locations :: "string option list"
  ik_price :: "string option"
  ik_text :: "string option"

definition acceptableLocation :: "string \<Rightarrow> bool" where
  "acceptableLocation text =
     (text \<noteq> []
      \<and> \<not> js_includes (toLowerCase text) ''chat''
      \<and> \<not> js_includes (toLowerCase text) ''login''
      \<and> \<not> js_includes (toLowerCase text) ''post''
      \<and> \<not> js_includes (toLowerCase text) ''search''
      \<and> length text > 2 \<and> length text < 100)"

fun firstLocation :: "string option list \<Rightarrow> string" where
  "firstLocation [] = []"
| "firstLocation (el # els) =
     (case el of
        None \<Rightarrow> firstLocation els
      | Some t \<Rightarrow> if acceptableLocation (trim t) then trim t else firstLocation els)"

text \<open>The pattern \<open>/\/ad\/([a-z\-]+)/i\<close> and the pattern \<open>/land|sale|for|property/gi\<close>.\<close>

definition adSlug :: "string \<Rightarrow> string option" where
  "adSlug s =
     (case litCI ''/ad/'' s of
        None \<Rightarrow> None
      | Some r \<Rightarrow>
          (let g = takeWhile (\<lambda>c. isLetter c \<or> c = CHR ''-'') r
           in if g = [] then None else Some g))"

definition wordToken :: "string \<Rightarrow> nat" where
  "wordToken s =
     (if litCI ''land'' s \<noteq> None then 4
      else if litCI ''sale'' s \<noteq> None then 4
      else if litCI ''for'' s \<noteq> None then 3
      else if litCI ''property'' s \<noteq> None then 8
      else 0)"

text \<open>
  The pattern \<open>/(?:in|at)\s+([A-Za-z\s]+?)(?:\s*[-,]|\s+for|\s+land|$)/i\<close> on the title.
  \<open>titleEnd\<close> is the last group; \<open>lazyGroup\<close> is the captured group, which grows by
  one character until \<open>titleEnd\<close> matches behind it; \<open>spacesThenGroup k\<close> lets \<open>\s+\<close>
  take \<open>k\<close> characters, then fewer, since the group may begin with white space.
\<close>

definition titleEnd :: "string \<Rightarrow> bool" where
  "titleEnd s =
     ((case dropWhile isSpace s of [] \<Rightarrow> False | c # _ \<Rightarrow> c = CHR ''-'' \<or> c = CHR '','')
      \<or> (takeWhile isSpace s \<noteq> [] \<and> litCI ''for'' (dropWhile isSpace s) \<noteq> None)
      \<or> (takeWhile isSpace s \<noteq> [] \<and> litCI ''land'' (dropWhile isSpace s) \<noteq> None)
      \<or> s = [])"

fun lazyGroup :: "string \<Rightarrow> string \<Rightarrow> string option" where
  "lazyGroup acc [] = None"
| "lazyGroup acc (c # cs) =
     (if isLetter c \<or> isSpace c
      then (if titleEnd cs then Some (acc @ [c]) else lazyGroup (acc @ [c]) cs)
      else None)"

fun spacesThenGroup :: "nat \<Rightarrow> string \<Rightarrow> string option" where
  "spacesThenGroup 0 r = None"
| "spacesThenGroup (Suc k) r =
     (case lazyGroup [] (drop (Suc k) r) of
        Some g \<Rightarrow> Some g
      | None \<Rightarrow> spacesThenGroup k r)"

definition titlePlace :: "string \<Rightarrow> string option" where
  "titlePlace s =
     (case (case litCI ''in'' s of Some r \<Rightarrow> Some r | None \<Rightarrow> litCI ''at'' s) of
        None \<Rightarrow> None
      | Some r \<Rightarrow> spacesThenGroup (length (takeWhile isSpace r)) r)"

text \<open>
  \<open>IkmanScraper.extractFromCard(card)\<close>.  \<open>now\<close> is \<open>new Date().toISOString()\<close>.
\<close>

definition Ikman_extractFromCard ::
  "(string \<times> string) list option \<Rightarrow> string \<Rightarrow> ikman_card \<Rightarrow> listing option" where
  "Ikman_extractFromCard GND_MC_MAPPING now elem =
     (case ik_href elem of
        None \<Rightarrow> None
      | Some href \<Rightarrow>
          if href = [] \<or> \<not> js_includes href ''/ad/'' then None
          else
            let title' = trim (orEmpty (ik_title elem));
                location1 = firstLocation (ik_locations elem);
                location2 =
                  (if location1 = []
                   then (case search adSlug href of
                           None \<Rightarrow> location1
                         | Some g \<Rightarrow>
                             (let urlLocation =
                                    trim (deleteMatches wordToken 0
                                            (map (\<lambda>c. if c = CHR ''-'' then CHR '' '' else c) g))
                              in if length urlLocation > 2 then urlLocation else location1))
                   else location1);
                location =
                  (if location2 = [] \<and> title' \<noteq> []
                   then (case search titlePlace title' of
                           None \<Rightarrow> location2
                         | Some g \<Rightarrow> trim g)
                   else location2);
                priceText = trim (orEmpty (ik_price elem));
                price = parsePrice priceText;
                isPricePerPerch = perPerchMarked priceText;
                fullText = orEmpty (ik_text elem);
                sz = parseSize fullText
            in Some \<lparr>title = title', address = location, priceRaw = priceText,
                 priceTotal = (if isPricePerPerch \<and> truthy sz then times price sz else price),
                 pricePerPerch = calculatePricePerPerch price sz isPricePerPerch,
                 sizePerches = sz,
                 url = (if startsWith href ''http'' then href else ''https://ikman.lk'' @ href),
                 latitude = None, longitude = None, postedDate = None,
                 source = ''ikman.lk'',
                 municipalCouncil =
                   getMunicipalCouncil GND_MC_MAPPING
                     (Some (if location \<noteq> [] then location else title')),
                 scrapedAt = now\<rparr>)"

text \<open>
  A listing elem of lankapropertyweb.com: the \<open>href\<close> of the listing link (\<open>None\<close>: no
  link), the text of the title element (or of the link), of the location, price and
  size elements, of the whole card, and the \<open>href\<close> of a map link.
\<close>

record lpw_card =
  lpw_href :: "string option"
  lpw_title :: "string option"
  lpw_location :: "string option"
  lpw_price :: "string option"
  lpw_size :: "string option"
  lpw_text :: "string option"
  lpw_mapLink :: "string option"

text \<open>\<open>LPWScraper.extractFromCard(card)\<close>.\<close>

definition LPW_extractFromCard ::
  "(string \<times> string) list option \<Rightarrow> string \<Rightarrow> lpw_card \<Rightarrow> listing option" where
  "LPW_extractFromCard GND_MC_MAPPING now elem =
     (case lpw_href elem of
        None \<Rightarrow> None
      | Some href \<Rightarrow>
          let title' = trim (orEmpty (lpw_title elem));
              location = trim (orEmpty (lpw_location elem));
              priceText = trim (orEmpty (lpw_price elem));
              price = parsePrice priceText;
              isPricePerPerch = perPerchMarked priceText;
              sizeText = (if orEmpty (lpw_size elem) \<noteq> [] then orEmpty (lpw_size elem)
                          else orEmpty (lpw_text elem));
              sz = parseSize sizeText;
              coords = (case lpw_mapLink elem of
                          None \<Rightarrow> noCoords
                        | Some m \<Rightarrow> extractCoordsFromGoogleMaps (Some m))
          in Some \<lparr>title = title', address = location, priceRaw = priceText,
               priceTotal = (if isPricePerPerch \<and> truthy sz then times price sz else price),
               pricePerPerch = calculatePricePerPerch price sz isPricePerPerch,
               sizePerches = sz,
               url = (if startsWith href ''http'' then href
                      else ''https://www.lankapropertyweb.com'' @ href),
               latitude = lat coords, longitude = lng coords, postedDate = None,
               source = ''lankapropertyweb.com'',
               municipalCouncil = getMunicipalCouncil GND_MC_MAPPING (Some location),
               scrapedAt = now\<rparr>)"

subsection \<open>The record store\<close>

text \<open>
  \<open>saveListings(newListings)\<close>: the body of the \<open>try\<close> when the storage answers, the
  \<open>catch\<close> (which returns 0 and leaves everything as it was) when it does not.
\<close>

definition saveListings :: "listing list \<Rightarrow> world \<Rightarrow> nat \<times> world" where
  "saveListings newListings w =
     (if \<not> storage_ok w then (0, w)
      else
        let existing = (case st_listings (store w) of None \<Rightarrow> [] | Some ls \<Rightarrow> ls);
            existingUrls = set (map url existing);
            uniqueNew = filter (\<lambda>l. \<not> (url l \<in> existingUrls)) newListings;
            updated = existing @ uniqueNew;
            w1 = w\<lparr>store := (store w)\<lparr>st_listings := Some updated\<rparr>\<rparr>;
            w2 = sendMessage (UPDATE_COUNT (length updated) (length uniqueNew)) w1
        in (length uniqueNew, w2))"

text \<open>The collection that is persisted under the key \<open>listings\<close>.\<close>

definition stored :: "world \<Rightarrow> listing list" where
  "stored w = (case st_listings (store w) of None \<Rightarrow> [] | Some ls \<Rightarrow> ls)"

text \<open>The store invariant: no two stored records share a url.\<close>

definition unique_urls :: "listing list \<Rightarrow> bool" where
  "unique_urls ls = distinct (map url ls)"

subsection \<open>Main scraping logic\<close>

text \<open>
  What one page context is given from outside: the host name and the address of the
  page, the cards each adapter's \<open>getListingCards\<close> finds, the value of the adapter's
  \<open>getNextPageUrl()\<close>, the canonical form \<open>new URL(u, origin).toString()\<close> of a url
  (\<open>None\<close>: the constructor throws), the network, the clock, the mapping, and
  whether a stop command arrives while the page is scraped and saved, or during the
  delay before the next page.  \<open>env_href\<close> is \<open>window.location.href\<close>, which is
  already canonical.
\<close>

datatype site = Ikman | LPW
















subsection \<open>Vocabulary of the properties\<close>






text \<open>
  The tiers of the region resolver in the words of the specification, for a text that
  is not empty: its lower-cased, trimmed form; its parts; a match against the mapping
  (a part that is a key, a part that contains a key or is contained in one, a key
  contained in the whole text); a match against the three hardcoded lists.
\<close>

definition lowered :: "string \<Rightarrow> string" where
  "lowered text = trim (toLowerCase text)"

definition textParts :: "string \<Rightarrow> string list" where
  "textParts text = filter (\<lambda>p. p \<noteq> []) (map trim (split isSeparator (lowered text)))"




text \<open>The value the three loops over the mapping return, if any; and a text none of
  whose parts is the name of an inherited property.\<close>

definition mapped :: "(string \<times> string) list \<Rightarrow> string \<Rightarrow> jsvalue option" where
  "mapped m text =
     (case exactMatch m (textParts text) of
        Some v \<Rightarrow> Some v
      | None \<Rightarrow>
          (case partMatch m (textParts text) of
             Some mc \<Rightarrow> Some (Str mc)
           | None \<Rightarrow> map_option Str (fullTextMatch m (lowered text))))"





section \<open>Properties\<close>

subsection \<open>Scanning numbers\<close>

lemma floor_rat_numeral_div [simp]:
  "\<lfloor>(numeral a :: rat) / numeral b\<rfloor> = numeral a div numeral b"
  using floor_divide_of_int_eq [of "numeral a" "numeral b", where ?'a = rat] by simp

lemma floor_rat_one_div [simp]: "\<lfloor>(1 :: rat) / numeral b\<rfloor> = 1 div numeral b"
  using floor_divide_of_int_eq [of 1 "numeral b", where ?'a = rat] by simp





lemma isDigit_lowerChar_iff: "isDigit (lowerChar c) = isDigit c"
  by (auto simp: isDigit_def lowerChar_def Let_def)


lemma number_no_digit: "s = [] \<or> \<not> isDigit (hd s) \<Longrightarrow> number s = None"
  by (cases s) (auto simp: number_def)



lemma search_skip_other:
  assumes "\<forall>c\<in>set nd. \<not> isDigit c"
  shows "search (numberThen follow) (nd @ r) = search (numberThen follow) r"
  using assms
proof (induction nd)
  case Nil
  then show ?case by simp
next
  case (Cons c nd)
  have "number (c # nd @ r) = None"
    using Cons.prems by (simp add: number_no_digit)
  then show ?case using Cons by (simp add: numberThen_def)
qed

lemma search_no_digit:
  assumes "\<forall>c\<in>set s. \<not> isDigit c"
  shows "search (numberThen follow) s = None"
  using search_skip_other [OF assms, of follow "[]"]
  by (simp add: numberThen_def number_no_digit)










lemma lowerChar_lower [simp]:
  "lowerChar CHR ''a'' = CHR ''a''" "lowerChar CHR ''c'' = CHR ''c''"
  "lowerChar CHR ''d'' = CHR ''d''" "lowerChar CHR ''e'' = CHR ''e''"
  "lowerChar CHR ''h'' = CHR ''h''" "lowerChar CHR ''o'' = CHR ''o''"
  "lowerChar CHR ''p'' = CHR ''p''" "lowerChar CHR ''r'' = CHR ''r''"
  "lowerChar CHR ''s'' = CHR ''s''"
  by (simp_all add: lowerChar_def)






lemma parseSize_no_digit:
  assumes "\<forall>c\<in>set t. \<not> isDigit c"
  shows "parseSize t = None"
proof -
  have "\<forall>c\<in>set (toLowerCase t). \<not> isDigit c"
    using assms by (auto simp: toLowerCase_def isDigit_lowerChar_iff)
  then show ?thesis
    by (simp add: parseSize_def Let_def search_no_digit)
qed










subsection \<open>Price texts\<close>

lemma deleteMatches_numeral [simp]:
  "deleteMatches len (numeral n) (c # cs) = deleteMatches len (pred_numeral n) cs"
  by (simp add: numeral_eq_Suc)

lemmas price_eval = isDigit_def isSpace_def lowerChar_def trim_def number_def numberThen_def
  digitsValue_def exponentPart_def parseFloat_def currencyToken_def millionSuffix_def
  lakhSuffix_def croreSuffix_def parsePrice_def Math_round_def Let_def char_of_eq_iff

text \<open>The examples of the specification, and the fallbacks.\<close>

lemma parsePrice_examples:
  "parsePrice ''Rs 2,500,000'' = Some 2500000"
  "parsePrice ''Rs. 38M'' = Some 38000000"
  "parsePrice ''Rs 25 Lakhs'' = Some 2500000"
  "parsePrice ''rs 2.5 crore'' = Some 25000000"
  "parsePrice ''LKR 1.5m'' = Some 1500000"
  "parsePrice ''Rs 1250.5'' = Some 1251"
  "parsePrice ''Negotiable'' = None"
  "parsePrice [] = None"
  by (simp_all add: price_eval)

text \<open>
  C3.  The claim has the magnitude suffixes recognised after the currency markers and
  the thousands separators are stripped.  The test for millions runs on the stripped
  text; the tests for lakhs and crores run on the text as given, where a separator
  ends the number: of \<open>Rs 1,250 Lakhs\<close> only \<open>250\<close> is multiplied, of \<open>Rs 1,250 Crore\<close>
  likewise, while \<open>Rs 1,250M\<close> is read as 1250 millions.
\<close>

theorem parsePrice_lakhs_with_separator:
  "parsePrice ''Rs 1,250 Lakhs'' = Some 25000000
   \<and> parsePrice ''Rs 1,250 Crore'' = Some 2500000000
   \<and> parsePrice ''Rs 1,250M'' = Some 1250000000
   \<and> parsePrice ''Rs 1,250'' = Some 1250"
  by (simp add: price_eval)

subsection \<open>Region resolver\<close>

















subsection \<open>Coordinates\<close>

lemmas coord_eval = isDigit_def isSpace_def lowerChar_def number_def signedNumber_def
  coordPair_def digitsValue_def exponentPart_def parseFloat_def noCoords_def
  extractCoordsFromGoogleMaps_def inSriLanka_def Let_def char_of_eq_iff

lemma extractCoords_examples:
  "extractCoordsFromGoogleMaps (Some ''https://www.google.com/maps/place/6.9,79.8'')
     = \<lparr>lat = Some (69 / 10), lng = Some (798 / 10)\<rparr>"
  "extractCoordsFromGoogleMaps (Some ''https://www.google.com/maps/@6.9271,79.8612,15z'')
     = \<lparr>lat = Some (69271 / 10000), lng = Some (798612 / 10000)\<rparr>"
  "extractCoordsFromGoogleMaps (Some ''https://maps.google.com/?q=51.5,-0.1'')
     = \<lparr>lat = Some (515 / 10), lng = Some (- (1 / 10))\<rparr>"
  "extractCoordsFromGoogleMaps (Some ''https://www.google.com/maps/place/Colombo'') = noCoords"
  "extractCoordsFromGoogleMaps None = noCoords"
  by (simp_all add: coord_eval)

lemma inSriLanka_examples:
  "inSriLanka (Some (69 / 10)) (Some (798 / 10))"
  "\<not> inSriLanka (Some (515 / 10)) (Some (- (1 / 10)))"
  by (simp_all add: inSriLanka_def)

text \<open>
  The paths that do test the bounding box: what the script patterns and the data
  attributes yield is inside the box.
\<close>

lemma scanPatterns_inSriLanka:
  "scanPatterns ms = Some c \<Longrightarrow> inSriLanka (lat c) (lng c)"
  by (induction ms) (auto split: option.splits if_splits)

lemma scanScripts_inSriLanka:
  "scanScripts ss = Some c \<Longrightarrow> inSriLanka (lat c) (lng c)"
  by (induction ss) (auto split: option.splits dest: scanPatterns_inSriLanka)

lemma fromDataset_inSriLanka:
  "lat r = None \<Longrightarrow> lat (fromDataset d r) = None \<or> inSriLanka (lat (fromDataset d r)) (lng (fromDataset d r))"
  by (simp add: fromDataset_def Let_def)

text \<open>
  C2.  The claim has every pair outside the box lat 5.9 to 9.9, lng 79.5 to 81.9
  rejected whatever path produced it.  The script patterns and the data attributes
  reject (51.5, -0.1); the map link of the detail page (the map frame goes through
  the same step) and the map link of a listing card do not test the box, and the pair
  is returned by \<open>fetchDetailPageInfo\<close> and stored on the record of the card.
\<close>

theorem map_link_outside_box_is_kept:
  "\<not> inSriLanka (Some (515 / 10)) (Some (- (1 / 10)))
   \<and> fetchDetailPageInfo
        (\<lambda>u. Response 200 (Some \<lparr>doc_postedDate = Inr None, doc_address = None,
           doc_mapLink = Some ''https://www.google.com/maps/place/51.5,-0.1'',
           doc_mapIframe = None, doc_scripts = [], doc_mapContainer = None\<rparr>))
        ''https://ikman.lk/en/ad/land-1'' ''ikman''
      = Inr \<lparr>lat = Some (515 / 10), lng = Some (- (1 / 10)),
             info_postedDate = None, info_address = None\<rparr>
   \<and> fetchDetailPageInfo
        (\<lambda>u. Response 200 (Some \<lparr>doc_postedDate = Inr None, doc_address = None,
           doc_mapLink = None,
           doc_mapIframe = Some ''https://www.google.com/maps?q=51.5,-0.1'',
           doc_scripts = [], doc_mapContainer = None\<rparr>))
        ''https://ikman.lk/en/ad/land-1'' ''ikman''
      = Inr \<lparr>lat = Some (515 / 10), lng = Some (- (1 / 10)),
             info_postedDate = None, info_address = None\<rparr>
   \<and> map_option (\<lambda>l. (latitude l, longitude l))
        (LPW_extractFromCard None ''2026-01-01T00:00:00.000Z''
           \<lparr>lpw_href = Some ''https://www.lankapropertyweb.com/land/1'',
            lpw_title = Some ''Land'', lpw_location = Some ''London'',
            lpw_price = Some ''Rs 2,500,000'', lpw_size = Some ''10 perches'',
            lpw_text = Some ''Land London Rs 2,500,000 10 perches'',
            lpw_mapLink = Some ''https://www.google.com/maps/place/51.5,-0.1''\<rparr>)
      = Some (Some (515 / 10), Some (- (1 / 10)))
   \<and> fetchDetailPageInfo
        (\<lambda>u. Response 200 (Some \<lparr>doc_postedDate = Inr None, doc_address = None,
           doc_mapLink = None, doc_mapIframe = None,
           doc_scripts = [[Some (''51.5'', ''-0.1''), None, None, None]],
           doc_mapContainer = Some \<lparr>data_lat = Some ''51.5'', data_latitude = None,
             data_lng = Some ''-0.1'', data_longitude = None\<rparr>\<rparr>))
        ''https://ikman.lk/en/ad/land-1'' ''ikman''
      = Inr noInfo"
  by (simp add: coord_eval fetchDetailPageInfo_def fetchDetailPageInfo_body_def noInfo_def
      fromMapUrl_def fromDataset_def orElse_def LPW_extractFromCard_def)

subsection \<open>Detail enricher\<close>

text \<open>
  C9.  \<open>fetchDetailPageInfo\<close> never throws: for every network, url and site it returns
  a result.  When the request is rejected, when the status is not one of 200 to 299,
  when the body cannot be read, and when the extraction throws, the result has all four
  fields absent.
\<close>

theorem fetchDetailPageInfo_never_throws:
  "(\<exists>r. fetchDetailPageInfo fetch u site = Inr r)
   \<and> (fetch u = Rejected \<longrightarrow> fetchDetailPageInfo fetch u site = Inr noInfo)
   \<and> (fetch u = Response status body \<and> \<not> (200 \<le> status \<and> status \<le> 299) \<longrightarrow>
        fetchDetailPageInfo fetch u site = Inr noInfo)
   \<and> (fetch u = Response status None \<longrightarrow> fetchDetailPageInfo fetch u site = Inr noInfo)
   \<and> (fetch u = Response status (Some doc) \<and> site = ''ikman'' \<and> doc_postedDate doc = Inl x \<longrightarrow>
        fetchDetailPageInfo fetch u site = Inr noInfo)
   \<and> lat noInfo = None \<and> lng noInfo = None
   \<and> info_postedDate noInfo = None \<and> info_address noInfo = None"
proof -
  have "\<exists>r. fetchDetailPageInfo fetch u site = Inr r"
    by (cases "fetchDetailPageInfo_body fetch u site") (simp_all add: fetchDetailPageInfo_def)
  moreover have "fetch u = Rejected \<longrightarrow> fetchDetailPageInfo fetch u site = Inr noInfo"
    by (simp add: fetchDetailPageInfo_def fetchDetailPageInfo_body_def)
  moreover have "fetch u = Response status body \<and> \<not> (200 \<le> status \<and> status \<le> 299) \<longrightarrow>
      fetchDetailPageInfo fetch u site = Inr noInfo"
    by (auto simp: fetchDetailPageInfo_def fetchDetailPageInfo_body_def)
  moreover have "fetch u = Response status None \<longrightarrow> fetchDetailPageInfo fetch u site = Inr noInfo"
    by (auto simp: fetchDetailPageInfo_def fetchDetailPageInfo_body_def)
  moreover have "fetch u = Response status (Some doc) \<and> site = ''ikman'' \<and> doc_postedDate doc = Inl x
      \<longrightarrow> fetchDetailPageInfo fetch u site = Inr noInfo"
    by (auto simp: fetchDetailPageInfo_def fetchDetailPageInfo_body_def)
  ultimately show ?thesis by (simp add: noInfo_def)
qed

theorem fetchDetailPageInfo_never_throws_witness:
  "fetchDetailPageInfo (\<lambda>u. if u = ''https://ikman.lk/en/ad/a'' then Rejected
                             else if u = ''https://ikman.lk/en/ad/b'' then Response 404 None
                             else Response 200 (Some \<lparr>doc_postedDate = Inl InvalidDate,
                               doc_address = None, doc_mapLink = None, doc_mapIframe = None,
                               doc_scripts = [], doc_mapContainer = None\<rparr>))
      ''https://ikman.lk/en/ad/a'' ''ikman'' = Inr noInfo
   \<and> fetchDetailPageInfo (\<lambda>u. if u = ''https://ikman.lk/en/ad/a'' then Rejected
                             else if u = ''https://ikman.lk/en/ad/b'' then Response 404 None
                             else Response 200 (Some \<lparr>doc_postedDate = Inl InvalidDate,
                               doc_address = None, doc_mapLink = None, doc_mapIframe = None,
                               doc_scripts = [], doc_mapContainer = None\<rparr>))
      ''https://ikman.lk/en/ad/b'' ''ikman'' = Inr noInfo
   \<and> fetchDetailPageInfo (\<lambda>u. if u = ''https://ikman.lk/en/ad/a'' then Rejected
                             else if u = ''https://ikman.lk/en/ad/b'' then Response 404 None
                             else Response 200 (Some \<lparr>doc_postedDate = Inl InvalidDate,
                               doc_address = None, doc_mapLink = None, doc_mapIframe = None,
                               doc_scripts = [], doc_mapContainer = None\<rparr>))
      ''https://ikman.lk/en/ad/c'' ''ikman'' = Inr noInfo"
  using
    fetchDetailPageInfo_never_throws [of
      "\<lambda>u. if u = ''https://ikman.lk/en/ad/a'' then Rejected
           else if u = ''https://ikman.lk/en/ad/b'' then Response 404 None
           else Response 200 (Some \<lparr>doc_postedDate = Inl InvalidDate,
             doc_address = None, doc_mapLink = None, doc_mapIframe = None,
             doc_scripts = [], doc_mapContainer = None\<rparr>)"
      "''https://ikman.lk/en/ad/a''" "''ikman''" 404 None
      "\<lparr>doc_postedDate = Inl InvalidDate,
             doc_address = None, doc_mapLink = None, doc_mapIframe = None,
             doc_scripts = [], doc_mapContainer = None\<rparr>" InvalidDate]
    fetchDetailPageInfo_never_throws [of
      "\<lambda>u. if u = ''https://ikman.lk/en/ad/a'' then Rejected
           else if u = ''https://ikman.lk/en/ad/b'' then Response 404 None
           else Response 200 (Some \<lparr>doc_postedDate = Inl InvalidDate,
             doc_address = None, doc_mapLink = None, doc_mapIframe = None,
             doc_scripts = [], doc_mapContainer = None\<rparr>)"
      "''https://ikman.lk/en/ad/b''" "''ikman''" 404 None
      "\<lparr>doc_postedDate = Inl InvalidDate,
             doc_address = None, doc_mapLink = None, doc_mapIframe = None,
             doc_scripts = [], doc_mapContainer = None\<rparr>" InvalidDate]
    fetchDetailPageInfo_never_throws [of
      "\<lambda>u. if u = ''https://ikman.lk/en/ad/a'' then Rejected
           else if u = ''https://ikman.lk/en/ad/b'' then Response 404 None
           else Response 200 (Some \<lparr>doc_postedDate = Inl InvalidDate,
             doc_address = None, doc_mapLink = None, doc_mapIframe = None,
             doc_scripts = [], doc_mapContainer = None\<rparr>)"
      "''https://ikman.lk/en/ad/c''" "''ikman''" 200
      "Some \<lparr>doc_postedDate = Inl InvalidDate,
             doc_address = None, doc_mapLink = None, doc_mapIframe = None,
             doc_scripts = [], doc_mapContainer = None\<rparr>"
      "\<lparr>doc_postedDate = Inl InvalidDate,
             doc_address = None, doc_mapLink = None, doc_mapIframe = None,
             doc_scripts = [], doc_mapContainer = None\<rparr>" InvalidDate]
  by simp

subsection \<open>Card extraction\<close>

text \<open>What both adapters store as \<open>priceTotal\<close>, in terms of the other fields of the
  record.\<close>

lemma Ikman_priceTotal:
  "Ikman_extractFromCard g now c = Some l \<Longrightarrow>
   priceTotal l =
     (if perPerchMarked (priceRaw l) \<and> truthy (sizePerches l)
      then times (parsePrice (priceRaw l)) (sizePerches l)
      else parsePrice (priceRaw l))"
  by (auto simp: Ikman_extractFromCard_def Let_def split: option.splits if_splits)

lemma LPW_priceTotal:
  "LPW_extractFromCard g now c = Some l \<Longrightarrow>
   priceTotal l =
     (if perPerchMarked (priceRaw l) \<and> truthy (sizePerches l)
      then times (parsePrice (priceRaw l)) (sizePerches l)
      else parsePrice (priceRaw l))"
  by (auto simp: LPW_extractFromCard_def Let_def split: option.splits if_splits)

text \<open>With a parsed price the product is the price times the size; without one,
  every case but the marked one leaves the total absent.\<close>

lemma times_Some: "times (Some p) (Some s) = Some (p * s)"
  by (simp add: times_def toNumber_def)

lemma times_None: "times None sz = Some 0"
  by (simp add: times_def toNumber_def)

lemmas card_eval = isDigit_def isSpace_def isLetter_def isWordChar_def lowerChar_def
  toLowerCase_def trim_def number_def numberThen_def digitsValue_def exponentPart_def
  parseFloat_def currencyToken_def millionSuffix_def lakhSuffix_def croreSuffix_def
  parsePrice_def perchUnit_def acreUnit_def roodUnit_def wordEnd_def parseSize_def
  perPerchMarked_def orEmpty_def startsWith_def times_def toNumber_def Math_round_def
  Let_def char_of_eq_iff

text \<open>
  C10.  The claim has \<open>priceTotal\<close> equal to the parsed price times the size when the
  price text is marked per perch and a positive size was parsed.  For a price text
  that is marked per perch but from which no price is parsed (here the text begins
  with a label), the parsed price is absent, yet both adapters store the total 0: the
  product of \<open>null\<close> and the size.
\<close>

theorem priceTotal_zero_without_price:
  "parsePrice ''Price: Rs 450,000 per perch'' = None
   \<and> perPerchMarked ''Price: Rs 450,000 per perch''
   \<and> parseSize ''Land for sale 10 perches Malabe Price: Rs 450,000 per perch'' = Some 10
   \<and> map_option priceTotal
        (Ikman_extractFromCard None ''2026-01-01T00:00:00.000Z''
           \<lparr>ik_href = Some ''https://ikman.lk/en/ad/land-for-sale-in-malabe'',
            ik_title = Some ''Land for sale'',
            ik_locations = [None, Some ''Malabe'', None, None],
            ik_price = Some ''Price: Rs 450,000 per perch'',
            ik_text = Some ''Land for sale 10 perches Malabe Price: Rs 450,000 per perch''\<rparr>)
      = Some (Some 0)
   \<and> map_option priceTotal
        (LPW_extractFromCard None ''2026-01-01T00:00:00.000Z''
           \<lparr>lpw_href = Some ''https://www.lankapropertyweb.com/land/1'',
            lpw_title = Some ''Land for sale'', lpw_location = Some ''Malabe'',
            lpw_price = Some ''Price: Rs 450,000 per perch'',
            lpw_size = Some ''10 perches'',
            lpw_text = Some ''Land for sale 10 perches Malabe Price: Rs 450,000 per perch'',
            lpw_mapLink = None\<rparr>)
      = Some (Some 0)"
  by (simp add: card_eval Ikman_extractFromCard_def LPW_extractFromCard_def)

subsection \<open>The crawl\<close>

















subsection \<open>Price per perch\<close>

lemma Math_round_of_int: "Math_round (of_int n) = of_int n"
  by (simp add: Math_round_def)

text \<open>
  C1 (as amended).  For a price \<open>p\<close> that is present and not zero and a size \<open>s > 0\<close>,
  \<open>calculatePricePerPerch\<close> returns \<open>p\<close> when the price is marked per perch, and
  otherwise follows the branch order: \<open>round (p / s)\<close> if \<open>p > 5,000,000\<close> and
  \<open>s < 50\<close>; else \<open>p\<close> if \<open>p < 500,000\<close>; else \<open>round (p / s)\<close> if \<open>p > 1,000,000\<close>;
  else \<open>p\<close>.  It returns nothing whenever the price or the size is missing or the size
  is not positive.  In particular (8000000, 20) gives 400000, (300000, 10) gives
  300000.
\<close>

theorem calculatePricePerPerch_branches:
  "(p \<noteq> 0 \<and> 0 < s \<longrightarrow>
      calculatePricePerPerch (Some p) (Some s) False =
        Some (if p > 5000000 \<and> s < 50 then Math_round (p / s)
              else if p < 500000 then p
              else if p > 1000000 then Math_round (p / s)
              else p)
      \<and> calculatePricePerPerch (Some p) (Some s) True = Some p)
   \<and> calculatePricePerPerch None sz b = None
   \<and> calculatePricePerPerch pr None b = None
   \<and> (s \<le> 0 \<longrightarrow> calculatePricePerPerch pr (Some s) b = None)
   \<and> calculatePricePerPerch (Some 8000000) (Some 20) False = Some 400000
   \<and> calculatePricePerPerch (Some 300000) (Some 10) False = Some 300000
   \<and> calculatePricePerPerch pr (Some 0) False = None"
  by (simp add: calculatePricePerPerch_def Math_round_def)

theorem calculatePricePerPerch_branches_witness:
  "(7500000::rat) \<noteq> 0 \<and> (0::rat) < 40
   \<and> calculatePricePerPerch (Some 7500000) (Some 40) False = Some 187500
   \<and> calculatePricePerPerch (Some 7500000) (Some 40) True = Some 7500000
   \<and> calculatePricePerPerch (Some 5) (Some (-1)) True = None"
  using calculatePricePerPerch_branches [of 7500000 40 None True "Some 5"]
    calculatePricePerPerch_branches [of 1 "-1" None True "Some 5"]
  by (simp add: Math_round_def)

text \<open>
  The claim as first stated fails for a price of zero, which \<open>parsePrice\<close> returns for
  a text such as \<open>Rs 0\<close>: zero is below 500,000, yet the function returns nothing.
\<close>

theorem calculatePricePerPerch_zero_price:
  "(0::rat) < 10 \<and> \<not> ((0::rat) > 5000000 \<and> (10::rat) < 50) \<and> (0::rat) < 500000
   \<and> calculatePricePerPerch (Some 0) (Some 10) False = None
   \<and> calculatePricePerPerch (Some 0) (Some 10) False \<noteq> Some 0"
  by (simp add: calculatePricePerPerch_def)

subsection \<open>The record store\<close>

lemma stored_saveListings:
  "storage_ok w \<Longrightarrow>
   stored (snd (saveListings b w)) =
     stored w @ filter (\<lambda>l. url l \<notin> set (map url (stored w))) b"
  by (simp add: saveListings_def stored_def sendMessage_def Let_def)

lemma saveListings_storage_down: "\<not> storage_ok w \<Longrightarrow> saveListings b w = (0, w)"
  by (simp add: saveListings_def)

lemma storage_ok_saveListings: "storage_ok (snd (saveListings b w)) = storage_ok w"
  by (simp add: saveListings_def sendMessage_def Let_def)

lemma filter_seen_twice:
  "filter (\<lambda>l. url l \<notin> set (map url (S @ filter (\<lambda>l. url l \<notin> set (map url S)) B))) B = []"
  by (auto simp: filter_empty_conv)

text \<open>
  C6.  Saving a batch a second time leaves the persisted storage exactly as the first
  save left it: \<open>saveListings\<close> is idempotent on the stored collection, whatever the
  store held before and whatever the batch.
\<close>

theorem saveListings_idempotent:
  "store (snd (saveListings b (snd (saveListings b w)))) = store (snd (saveListings b w))"
proof (cases "storage_ok w")
  case False
  then show ?thesis by (simp add: saveListings_storage_down)
next
  case True
  let ?w1 = "snd (saveListings b w)"
  have ok1: "storage_ok ?w1" using True by (simp add: storage_ok_saveListings)
  have s1: "st_listings (store ?w1) = Some (stored ?w1)"
    using True by (simp add: saveListings_def stored_def sendMessage_def Let_def)
  have other: "store (snd (saveListings b ?w1)) = (store ?w1)\<lparr>st_listings := Some (stored (snd (saveListings b ?w1)))\<rparr>"
    using ok1 by (simp add: saveListings_def stored_def sendMessage_def Let_def)
  have "stored (snd (saveListings b ?w1)) = stored ?w1"
    by (simp only: stored_saveListings [OF ok1] stored_saveListings [OF True]
        filter_seen_twice append_Nil2)
  with other s1 show ?thesis by simp
qed

theorem saveListings_idempotent_witness:
  "store (snd (saveListings [] (snd (saveListings [] initial_world))))
     = store (snd (saveListings [] initial_world))
   \<and> st_listings (store (snd (saveListings [] initial_world))) = Some []"
  using saveListings_idempotent [of "[]" initial_world]
  by (simp add: saveListings_def initial_world_def empty_storage_def sendMessage_def)

text \<open>
  A helper fact on the store invariant: a batch whose urls are pairwise different keeps
  the stored urls pairwise different.
\<close>

lemma saveListings_keeps_unique_urls:
  assumes "unique_urls (stored w)" and "unique_urls b"
  shows "unique_urls (stored (snd (saveListings b w)))"
proof (cases "storage_ok w")
  case False
  with assms show ?thesis by (simp add: saveListings_storage_down)
next
  case True
  have "distinct (map url (filter (\<lambda>l. url l \<notin> set (map url (stored w))) b))"
    using assms(2) unfolding unique_urls_def by (simp add: distinct_map_filter)
  with assms(1) show ?thesis
    unfolding unique_urls_def stored_saveListings [OF True] by (auto simp: image_iff)
qed

text \<open>
  C7.  The claim asks that no two stored records ever share a url, also for a batch
  that holds the same url twice.  \<open>saveListings\<close> compares the incoming records with
  the stored ones only, never with each other: from the empty store, a batch of two
  records with one url is stored whole, and the stored collection then breaks the
  invariant.
\<close>

theorem saveListings_duplicate_url_in_batch:
  "unique_urls (stored initial_world)
   \<and> stored (snd (saveListings
        [\<lparr>title = ''Land A'', address = ''Nugegoda'', priceRaw = ''Rs 2,500,000'',
          priceTotal = Some 2500000, pricePerPerch = None, sizePerches = None,
          url = ''https://www.lankapropertyweb.com/land/1'', latitude = None,
          longitude = None, postedDate = None, source = ''lankapropertyweb.com'',
          municipalCouncil = Str ''Other'', scrapedAt = ''2026-01-01T00:00:00.000Z''\<rparr>,
         \<lparr>title = ''Land A'', address = ''Nugegoda'', priceRaw = ''Rs 2,500,000'',
          priceTotal = Some 2500000, pricePerPerch = None, sizePerches = None,
          url = ''https://www.lankapropertyweb.com/land/1'', latitude = None,
          longitude = None, postedDate = None, source = ''lankapropertyweb.com'',
          municipalCouncil = Str ''Other'', scrapedAt = ''2026-01-01T00:00:00.000Z''\<rparr>]
        initial_world))
     = [\<lparr>title = ''Land A'', address = ''Nugegoda'', priceRaw = ''Rs 2,500,000'',
          priceTotal = Some 2500000, pricePerPerch = None, sizePerches = None,
          url = ''https://www.lankapropertyweb.com/land/1'', latitude = None,
          longitude = None, postedDate = None, source = ''lankapropertyweb.com'',
          municipalCouncil = Str ''Other'', scrapedAt = ''2026-01-01T00:00:00.000Z''\<rparr>,
         \<lparr>title = ''Land A'', address = ''Nugegoda'', priceRaw = ''Rs 2,500,000'',
          priceTotal = Some 2500000, pricePerPerch = None, sizePerches = None,
          url = ''https://www.lankapropertyweb.com/land/1'', latitude = None,
          longitude = None, postedDate = None, source = ''lankapropertyweb.com'',
          municipalCouncil = Str ''Other'', scrapedAt = ''2026-01-01T00:00:00.000Z''\<rparr>]
   \<and> \<not> unique_urls (stored (snd (saveListings
        [\<lparr>title = ''Land A'', address = ''Nugegoda'', priceRaw = ''Rs 2,500,000'',
          priceTotal = Some 2500000, pricePerPerch = None, sizePerches = None,
          url = ''https://www.lankapropertyweb.com/land/1'', latitude = None,
          longitude = None, postedDate = None, source = ''lankapropertyweb.com'',
          municipalCouncil = Str ''Other'', scrapedAt = ''2026-01-01T00:00:00.000Z''\<rparr>,
         \<lparr>title = ''Land A'', address = ''Nugegoda'', priceRaw = ''Rs 2,500,000'',
          priceTotal = Some 2500000, pricePerPerch = None, sizePerches = None,
          url = ''https://www.lankapropertyweb.com/land/1'', latitude = None,
          longitude = None, postedDate = None, source = ''lankapropertyweb.com'',
          municipalCouncil = Str ''Other'', scrapedAt = ''2026-01-01T00:00:00.000Z''\<rparr>]
        initial_world)))"
  by (simp add: saveListings_def stored_def unique_urls_def initial_world_def
      empty_storage_def sendMessage_def)

end
